theory Spec2Isabelle
  imports Main
begin

section \<open>Data of the chat component\<close>

text \<open>
  The component is the class \<open>ChatComponent\<close> of the chat-component package. Its
  handlers are asynchronous: a handler runs until it reaches an \<open>await\<close> on a collaborator
  (\<open>getAPIResponse\<close>, \<open>parseStreamedMessages\<close>), and continues when that promise settles.
  Every synchronous stretch of a handler is one function on the component's fields here;
  the outcome of the awaited promise is an argument of the stretch that follows it.
\<close>

subsection \<open>Thread entries\<close>

text \<open>
  JavaScript objects are compared by reference (\<open>new Set\<close> uses SameValueZero), so an
  object that takes part in such a comparison carries its address.
\<close>

datatype 'a js_object = Object (address: nat) (deref: 'a)

record Citation =
  c_ref :: nat
  c_text :: string

type_synonym citation_object = "Citation js_object"

record ChatMessageText =
  t_value :: string
  followingSteps :: "string list"

datatype ChatError = ChatError (message: string)

text \<open>
  \<open>followupQuestions\<close> and \<open>citations\<close> are absent (\<open>undefined\<close>) on the entry that the
  error handler appends, hence optional.
\<close>

record ChatThreadEntry =
  e_text :: "ChatMessageText list"
  followupQuestions :: "string list option"
  citations :: "citation_object list option"
  timestamp :: string
  isUserMessage :: bool
  error :: "ChatError option"

subsection \<open>Responses and thrown values\<close>

datatype interaction_model = Ask | Chat

record MessageContext =
  ctx_thoughts :: "string option"
  ctx_data_points :: "string list option"

record Message =
  content :: string
  role :: string
  m_context :: "MessageContext option"

text \<open>
  What \<open>getAPIResponse\<close> resolves to: a \<open>BotResponse\<close> with its \<open>choices\<close> array
  (each choice reduced to its \<open>message\<close>), or a fetch \<open>Response\<close> whose body is a
  byte stream (the bytes are only handed on to the parser).
\<close>

datatype api_response = BotResponse "Message list" | StreamResponse "string list"

text \<open>
  A value caught by \<open>catch (error_)\<close>: a \<open>ChatResponseError\<close> with its optional status
  \<open>code\<close>, or any other thrown value (a \<open>TypeError\<close> of the runtime has no \<open>code\<close>).
\<close>

datatype thrown = ChatResponseError "int option" | TypeError

fun error_code :: "thrown \<Rightarrow> int option" where
  "error_code (ChatResponseError c) = c"
| "error_code TypeError = None"

datatype 'a settled = Resolved 'a | Rejected thrown

record StreamResult =
  thoughts :: "string option"
  data_points :: "string list"

text \<open>
  The request handed to \<open>getAPIResponse\<close>. The spread of \<open>chatRequestOptions\<close>,
  \<open>overrides\<close> and \<open>chatHttpOptions\<close> passes configuration through unchanged and is left
  out; \<open>question\<close>, \<open>type\<close> and \<open>stream\<close> are what the handler computes.
\<close>

record ApiRequest =
  rq_question :: string
  rq_type :: interaction_model
  rq_stream :: bool

text \<open>
  The arguments handed to \<open>parseStreamedMessages\<close>: the thread array as it is at the
  call, the address of the abort signal, and the response body.
\<close>

record ParseCall =
  pc_chatThread :: "ChatThreadEntry list"
  pc_signal :: nat
  pc_apiResponseBody :: "api_response option"

text \<open>
  What \<open>processText\<close> returns: the rewritten text and the three arrays (citations,
  following steps, follow-up questions). The function itself is outside the component's
  file; its result is taken as a value, and the three empty arrays the component passes
  in are taken to be left as they are.
\<close>

record ProcessTextReturn =
  replacedText :: string
  arrays0 :: "citation_object list"
  arrays1 :: "string list"
  arrays2 :: "string list"

text \<open>
  Collaborators and configuration that live outside the component's file and are taken
  as parameters: \<open>DOMPurify.sanitize\<close>, \<open>processText\<close> of the utilities, and the two
  messages of \<open>globalConfig\<close>. \<open>getTimestamp()\<close> is a clock; every function that calls it
  takes the value it returns as the argument \<open>ts\<close>.
\<close>

record collaborators =
  sanitize :: "string \<Rightarrow> string"
  processText :: "string \<Rightarrow> ProcessTextReturn"
  INVALID_REQUEST_ERROR :: string
  API_ERROR_MESSAGE :: string

subsection \<open>The component's fields\<close>

text \<open>
  \<open>questionInput\<close> is the \<open>value\<close> of the input element. \<open>abortController\<close> is the
  address of the current \<open>AbortController\<close>; \<open>abortSignals\<close> is the store of all
  controllers allocated so far, indexed by address, holding each signal's \<open>aborted\<close> flag.
\<close>

record ChatComponent =
  interactionModel :: interaction_model
  useStream :: bool
  currentQuestion :: string
  questionInput :: string
  isDisabled :: bool
  isChatStarted :: bool
  isResetInput :: bool
  isAwaitingResponse :: bool
  hasAPIError :: bool
  isResponseCopied :: bool
  isShowingThoughtProcess :: bool
  canShowThoughtProcess :: bool
  isDefaultPromptsEnabled :: bool
  apiResponse :: "api_response option"
  chatThread :: "ChatThreadEntry list"
  chatThoughts :: "string option"
  chatDataPoints :: "string list"
  abortController :: nat
  abortSignals :: "bool list"
  isProcessingResponse :: bool

text \<open>
  The field initialisers of the class; the two attributes and the two configuration
  values they read are arguments.
\<close>

definition initial :: "interaction_model \<Rightarrow> bool \<Rightarrow> bool \<Rightarrow> ChatComponent" where
  "initial model stream IS_DEFAULT_PROMPTS_ENABLED =
     \<lparr>interactionModel = model, useStream = stream, currentQuestion = [],
      questionInput = [], isDisabled = False, isChatStarted = False,
      isResetInput = False, isAwaitingResponse = False, hasAPIError = False,
      isResponseCopied = False, isShowingThoughtProcess = False,
      canShowThoughtProcess = False,
      isDefaultPromptsEnabled = (IS_DEFAULT_PROMPTS_ENABLED \<and> \<not> False),
      apiResponse = None, chatThread = [], chatThoughts = Some [],
      chatDataPoints = [], abortController = 0, abortSignals = [False],
      isProcessingResponse = False\<rparr>"

section \<open>Operations\<close>

subsection \<open>Abort controllers\<close>

definition AbortController_abort :: "ChatComponent \<Rightarrow> ChatComponent" where
  "AbortController_abort s =
     s\<lparr>abortSignals := (abortSignals s)[abortController s := True]\<rparr>"

definition new_AbortController :: "ChatComponent \<Rightarrow> ChatComponent" where
  "new_AbortController s =
     s\<lparr>abortController := length (abortSignals s),
       abortSignals := abortSignals s @ [False]\<rparr>"

definition handleUserChatCancel :: "ChatComponent \<Rightarrow> ChatComponent" where
  "handleUserChatCancel s =
     new_AbortController (AbortController_abort (s\<lparr>isProcessingResponse := False\<rparr>))"

subsection \<open>Small handlers\<close>

definition collapseAside :: "ChatComponent \<Rightarrow> ChatComponent" where
  "collapseAside s = s\<lparr>isShowingThoughtProcess := False\<rparr>"

definition handleExpandAside :: "ChatComponent \<Rightarrow> ChatComponent" where
  "handleExpandAside s = s\<lparr>isShowingThoughtProcess := True\<rparr>"

text \<open>
  The question input is a single-line text field of the browser: whatever is written
  to its \<open>value\<close>, by a script or by the user, is stored with its line breaks (LF and
  CR) removed. \<open>setQuestionInputValue\<close> reads \<open>currentQuestion\<close> back from the field.
\<close>

definition strip_newlines :: "string \<Rightarrow> string" where
  "strip_newlines v = filter (\<lambda>c. c \<noteq> CHR 0x0A \<and> c \<noteq> CHR 0x0D) v"

definition setQuestionInputValue ::
  "collaborators \<Rightarrow> string option \<Rightarrow> ChatComponent \<Rightarrow> ChatComponent" where
  "setQuestionInputValue cfg v s =
     (let s1 = s\<lparr>questionInput :=
                  strip_newlines (sanitize cfg (case v of None \<Rightarrow> [] | Some x \<Rightarrow> x))\<rparr>
      in s1\<lparr>currentQuestion := questionInput s1\<rparr>)"

definition handleVoiceInput ::
  "collaborators \<Rightarrow> string option \<Rightarrow> ChatComponent \<Rightarrow> ChatComponent" where
  "handleVoiceInput cfg input s = setQuestionInputValue cfg input s"

definition handleOnTeaserClick ::
  "collaborators \<Rightarrow> string option \<Rightarrow> ChatComponent \<Rightarrow> ChatComponent" where
  "handleOnTeaserClick cfg question s = setQuestionInputValue cfg question s"

definition resetInputField :: "ChatComponent \<Rightarrow> ChatComponent" where
  "resetInputField s = s\<lparr>questionInput := [], currentQuestion := [], isResetInput := False\<rparr>"

definition handleOnInputChange :: "ChatComponent \<Rightarrow> ChatComponent" where
  "handleOnInputChange s = s\<lparr>isResetInput := (questionInput s \<noteq> [])\<rparr>"

definition copyResponseToClipboard :: "ChatComponent \<Rightarrow> ChatComponent" where
  "copyResponseToClipboard s = s\<lparr>isResponseCopied := True\<rparr>"

definition handleAPIError :: "ChatComponent \<Rightarrow> ChatComponent" where
  "handleAPIError s =
     s\<lparr>hasAPIError := True, isDisabled := False, isAwaitingResponse := False,
       isProcessingResponse := False\<rparr>"

definition resetCurrentChat :: "ChatComponent \<Rightarrow> ChatComponent" where
  "resetCurrentChat s =
     handleUserChatCancel
       (collapseAside
         (s\<lparr>isChatStarted := False, chatThread := [], isDisabled := False,
            isDefaultPromptsEnabled := True, isResponseCopied := False\<rparr>))"

definition showDefaultPrompts :: "ChatComponent \<Rightarrow> ChatComponent" where
  "showDefaultPrompts s = (if \<not> isDefaultPromptsEnabled s then resetCurrentChat s else s)"

subsection \<open>Appending to the thread\<close>

text \<open>
  \<open>[...new Set(citations)]\<close>: the constructor adds the elements in order, and an element
  already in the set (the same object) is not added again.
\<close>

definition Set_add :: "'a js_object list \<Rightarrow> 'a js_object \<Rightarrow> 'a js_object list" where
  "Set_add seen x = (if address x \<in> address ` set seen then seen else seen @ [x])"

definition new_Set :: "'a js_object list \<Rightarrow> 'a js_object list" where
  "new_Set xs = foldl Set_add [] xs"

text \<open>
  \<open>updateChatWithMessageOrChunk(part, false)\<close>, with the variables of the enclosing
  \<open>processApiResponse\<close> it closes over as arguments.
\<close>

definition message_entry ::
  "string \<Rightarrow> string \<Rightarrow> string list \<Rightarrow> string list \<Rightarrow> citation_object list \<Rightarrow> bool
     \<Rightarrow> ChatThreadEntry" where
  "message_entry ts part steps followups cites isUser =
     \<lparr>e_text = [\<lparr>t_value = part, followingSteps = steps\<rparr>],
      followupQuestions = Some followups,
      citations = Some (new_Set cites),
      timestamp = ts, isUserMessage = isUser, error = None\<rparr>"

definition updateChatWithMessage ::
  "string \<Rightarrow> string \<Rightarrow> string list \<Rightarrow> string list \<Rightarrow> citation_object list \<Rightarrow> bool
     \<Rightarrow> ChatComponent \<Rightarrow> ChatComponent" where
  "updateChatWithMessage ts part steps followups cites isUser s =
     s\<lparr>chatThread := chatThread s @ [message_entry ts part steps followups cites isUser]\<rparr>"

text \<open>
  \<open>updateChatWithMessageOrChunk(part, true)\<close> up to its \<open>await\<close>: the empty entry is
  appended, the processing flag is set, and \<open>parseStreamedMessages\<close> is called.
\<close>

definition chunk_entry :: "string \<Rightarrow> bool \<Rightarrow> ChatThreadEntry" where
  "chunk_entry ts isUser =
     \<lparr>e_text = [\<lparr>t_value = [], followingSteps = []\<rparr>],
      followupQuestions = Some [], citations = Some [],
      timestamp = ts, isUserMessage = isUser, error = None\<rparr>"

definition updateChatWithChunk ::
  "string \<Rightarrow> bool \<Rightarrow> ChatComponent \<Rightarrow> ChatComponent \<times> ParseCall option" where
  "updateChatWithChunk ts isUser s =
     (let s1 = s\<lparr>chatThread := chatThread s @ [chunk_entry ts isUser]\<rparr>;
          s2 = s1\<lparr>isProcessingResponse := True\<rparr>
      in (s2, Some \<lparr>pc_chatThread = chatThread s2, pc_signal = abortController s2,
                    pc_apiResponseBody = apiResponse s2\<rparr>))"

text \<open>
  \<open>processApiResponse\<close> up to its first suspension. The second component is the call
  of \<open>parseStreamedMessages\<close> the function is suspended on, if any.
\<close>

definition processApiResponse ::
  "collaborators \<Rightarrow> string \<Rightarrow> string \<Rightarrow> bool \<Rightarrow> ChatComponent
     \<Rightarrow> ChatComponent \<times> ParseCall option" where
  "processApiResponse cfg ts msg isUser s =
     (if isUser then (updateChatWithMessage ts msg [] [] [] isUser s, None)
      else if useStream s then updateChatWithChunk ts isUser s
      else
        (let processedText = processText cfg msg
         in (updateChatWithMessage ts (replacedText processedText)
               ([] @ arrays1 processedText) ([] @ arrays2 processedText)
               ([] @ arrays0 processedText) isUser s, None)))"

subsection \<open>Failure handling\<close>

definition chat_error :: "collaborators \<Rightarrow> thrown \<Rightarrow> ChatError" where
  "chat_error cfg err =
     ChatError (if error_code err = Some 400 then INVALID_REQUEST_ERROR cfg
                else API_ERROR_MESSAGE cfg)"

definition error_entry :: "string \<Rightarrow> ChatError \<Rightarrow> ChatThreadEntry" where
  "error_entry ts chatError =
     \<lparr>e_text = [], followupQuestions = None, citations = None,
      timestamp = ts, isUserMessage = False, error = Some chatError\<rparr>"

text \<open>The \<open>catch\<close> block of \<open>handleUserChatSubmit\<close>.\<close>

definition catch_block ::
  "collaborators \<Rightarrow> string \<Rightarrow> thrown \<Rightarrow> ChatComponent \<Rightarrow> ChatComponent" where
  "catch_block cfg ts err s =
     (let chatError = chat_error cfg err
      in handleAPIError
           (if isProcessingResponse s \<and> chatThread s \<noteq> [] then
              s\<lparr>chatThread :=
                  (chatThread s)[length (chatThread s) - 1 :=
                     (last (chatThread s))\<lparr>error := Some chatError\<rparr>]\<rparr>
            else
              s\<lparr>chatThread := chatThread s @ [error_entry ts chatError]\<rparr>))"

subsection \<open>Submitting\<close>

text \<open>
  \<open>handleUserChatSubmit\<close> from its start to the call of \<open>getAPIResponse\<close>. The second
  component is the request the handler is suspended on; \<open>None\<close> when the handler
  returned without calling the transport.
\<close>

definition handleUserChatSubmit ::
  "collaborators \<Rightarrow> string \<Rightarrow> ChatComponent \<Rightarrow> ChatComponent \<times> ApiRequest option" where
  "handleUserChatSubmit cfg ts s0 =
     (let s = collapseAside s0;
          question = sanitize cfg (questionInput s)
      in if question \<noteq> [] then
           (let s1 = s\<lparr>currentQuestion := question\<rparr>;
                type = interactionModel s1;
                s2 = s1\<lparr>isChatStarted := True, isDefaultPromptsEnabled := False,
                        isDisabled := True, hasAPIError := False,
                        isAwaitingResponse := True\<rparr>;
                s3 = (if type = Chat then fst (processApiResponse cfg ts question True s2)
                      else s2)
            in (s3, Some \<lparr>rq_question = question, rq_type = type,
                          rq_stream = useStream s3\<rparr>))
         else (s, None))"

text \<open>
  \<open>handleUserChatSubmit\<close> from the point where \<open>getAPIResponse\<close> settles, to its end or
  to the call of \<open>parseStreamedMessages\<close> it is suspended on next. Reading
  \<open>response.choices[0].message\<close> of a response without a first choice throws.
\<close>

definition handleUserChatSubmit_resumed ::
  "collaborators \<Rightarrow> string \<Rightarrow> api_response settled \<Rightarrow> ChatComponent
     \<Rightarrow> ChatComponent \<times> ParseCall option" where
  "handleUserChatSubmit_resumed cfg ts outcome s =
     (case outcome of
        Rejected err \<Rightarrow> (catch_block cfg ts err s, None)
      | Resolved response \<Rightarrow>
          (let s1 = s\<lparr>apiResponse := Some response, questionInput := [],
                      isAwaitingResponse := False, isDisabled := False,
                      isResetInput := False\<rparr>
           in if \<not> useStream s1 then
                (case response of
                   BotResponse (m # ms) \<Rightarrow>
                     (let s2 = s1\<lparr>chatThoughts :=
                                   Some (case m_context m of None \<Rightarrow> []
                                         | Some c \<Rightarrow> (case ctx_thoughts c of None \<Rightarrow> []
                                                      | Some t \<Rightarrow> t)),
                                 chatDataPoints :=
                                   (case m_context m of None \<Rightarrow> []
                                    | Some c \<Rightarrow> (case ctx_data_points c of None \<Rightarrow> []
                                                 | Some d \<Rightarrow> d)),
                                 canShowThoughtProcess := True\<rparr>
                      in processApiResponse cfg ts (content m) False s2)
                 | BotResponse [] \<Rightarrow> (catch_block cfg ts TypeError s1, None)
                 | StreamResponse body \<Rightarrow> (catch_block cfg ts TypeError s1, None))
              else processApiResponse cfg ts [] False s1))"

text \<open>
  The rest of \<open>processApiResponse\<close> and of \<open>handleUserChatSubmit\<close> once
  \<open>parseStreamedMessages\<close> settles.
\<close>

definition processApiResponse_resumed ::
  "collaborators \<Rightarrow> string \<Rightarrow> StreamResult settled \<Rightarrow> ChatComponent \<Rightarrow> ChatComponent" where
  "processApiResponse_resumed cfg ts outcome s =
     (case outcome of
        Rejected err \<Rightarrow> catch_block cfg ts err s
      | Resolved result \<Rightarrow>
          s\<lparr>chatThoughts := thoughts result, chatDataPoints := data_points result,
            canShowThoughtProcess := True, isProcessingResponse := False\<rparr>)"

text \<open>The \<open>onCancel\<close> callback handed to \<open>parseStreamedMessages\<close>.\<close>

definition onCancel :: "ChatComponent \<Rightarrow> ChatComponent" where
  "onCancel s = s\<lparr>isProcessingResponse := False\<rparr>"

subsection \<open>The chat button\<close>

text \<open>
  \<open>renderChatOrCancelButton\<close>: the cancel button while a response is being processed,
  the submit button otherwise, with its \<open>disabled\<close> attribute bound to \<open>isDisabled\<close>.
\<close>

datatype chat_button = SubmitChatButton bool | CancelChatButton

definition renderChatOrCancelButton :: "ChatComponent \<Rightarrow> chat_button" where
  "renderChatOrCancelButton s =
     (if isProcessingResponse s then CancelChatButton else SubmitChatButton (isDisabled s))"

subsection \<open>Runs of the component\<close>

text \<open>
  What can happen to the component between two synchronous stretches: the user acts on
  a control, or an awaited promise settles. \<open>StreamChunkRead\<close> is the parser's in-place
  update of the entry it is filling, the last one of the thread.
\<close>

datatype event =
    InputTyped string
  | VoiceInput "string option"
  | TeaserClick "string option"
  | FollowupClick string
  | SubmitCalled string
  | TransportSettled string "api_response settled"
  | StreamChunkRead ChatThreadEntry
  | StreamCancelled
  | StreamSettled string "StreamResult settled"
  | CancelCalled
  | ResetChat
  | ShowDefaultPrompts
  | ResetInput
  | CopyResponse
  | ExpandAside
  | CollapseAside

fun step :: "collaborators \<Rightarrow> event \<Rightarrow> ChatComponent \<Rightarrow> ChatComponent" where
  "step cfg (InputTyped v) s = handleOnInputChange (s\<lparr>questionInput := strip_newlines v\<rparr>)"
| "step cfg (VoiceInput v) s = handleVoiceInput cfg v s"
| "step cfg (TeaserClick v) s = handleOnTeaserClick cfg v s"
| "step cfg (FollowupClick q) s = setQuestionInputValue cfg (Some q) s"
| "step cfg (SubmitCalled ts) s = fst (handleUserChatSubmit cfg ts s)"
| "step cfg (TransportSettled ts outcome) s = fst (handleUserChatSubmit_resumed cfg ts outcome s)"
| "step cfg (StreamChunkRead e) s =
     (if chatThread s = [] then s
      else s\<lparr>chatThread := (chatThread s)[length (chatThread s) - 1 := e]\<rparr>)"
| "step cfg StreamCancelled s = onCancel s"
| "step cfg (StreamSettled ts outcome) s = processApiResponse_resumed cfg ts outcome s"
| "step cfg CancelCalled s = handleUserChatCancel s"
| "step cfg ResetChat s = resetCurrentChat s"
| "step cfg ShowDefaultPrompts s = showDefaultPrompts s"
| "step cfg ResetInput s = resetInputField s"
| "step cfg CopyResponse s = copyResponseToClipboard s"
| "step cfg ExpandAside s = handleExpandAside s"
| "step cfg CollapseAside s = collapseAside s"

definition run :: "collaborators \<Rightarrow> event list \<Rightarrow> ChatComponent \<Rightarrow> ChatComponent" where
  "run cfg evs s = fold (step cfg) evs s"

text \<open>The current controller is an allocated object whose signal is not aborted.\<close>

definition controller_live :: "ChatComponent \<Rightarrow> bool" where
  "controller_live s =
     (abortController s < length (abortSignals s) \<and> \<not> abortSignals s ! abortController s)"


subsection \<open>The text annotation extractor\<close>






subsection \<open>Concrete collaborators and states\<close>

definition no_citations :: "string \<Rightarrow> ProcessTextReturn" where
  "no_citations txt = \<lparr>replacedText = txt, arrays0 = [], arrays1 = [], arrays2 = []\<rparr>"

definition plain_cfg :: collaborators where
  "plain_cfg = \<lparr>sanitize = id, processText = no_citations,
                INVALID_REQUEST_ERROR = ''invalid request'',
                API_ERROR_MESSAGE = ''api error''\<rparr>"

definition typed_hi :: ChatComponent where
  "typed_hi = (initial Chat True False)\<lparr>questionInput := ''hi''\<rparr>"

definition typed_spaces :: ChatComponent where
  "typed_spaces = (initial Chat False False)\<lparr>questionInput := ''  ''\<rparr>"

definition awaiting_hi :: ChatComponent where
  "awaiting_hi = fst (handleUserChatSubmit plain_cfg ''10:00'' typed_hi)"

definition streaming_hi :: ChatComponent where
  "streaming_hi =
     fst (handleUserChatSubmit_resumed plain_cfg ''10:01'' (Resolved (StreamResponse [])) awaiting_hi)"

definition answer :: Message where
  "answer = \<lparr>content = ''See [a.md][b.md][a.md]'', role = ''assistant'', m_context = None\<rparr>"

definition asked_hi :: ChatComponent where
  "asked_hi = (initial Ask False False)\<lparr>questionInput := ''hi''\<rparr>"

definition streaming_typed :: ChatComponent where
  "streaming_typed = step plain_cfg (InputTyped ''more'') streaming_hi"

definition submitted_twice :: ChatComponent where
  "submitted_twice = fst (handleUserChatSubmit plain_cfg ''10:02'' streaming_typed)"

definition cancelled_once :: "event list" where
  "cancelled_once =
     [InputTyped ''hi'', SubmitCalled ''10:00'',
      TransportSettled ''10:01'' (Resolved (StreamResponse [])),
      CancelCalled,
      StreamSettled ''10:02'' (Resolved \<lparr>thoughts = None, data_points = []\<rparr>),
      InputTyped ''more'', SubmitCalled ''10:03'']"


text \<open>
  A sanitizer for examples: like DOMPurify on text without tags, it returns a left
  angle bracket as the entity \<open>&lt;\<close>.
\<close>

definition escape_lt :: "string \<Rightarrow> string" where
  "escape_lt v = concat (map (\<lambda>c. if c = CHR ''<'' then ''&lt;'' else [c]) v)"

definition escaping_cfg :: collaborators where
  "escaping_cfg = \<lparr>sanitize = escape_lt, processText = no_citations,
                   INVALID_REQUEST_ERROR = ''invalid request'',
                   API_ERROR_MESSAGE = ''api error''\<rparr>"

definition dictated :: string where
  "dictated = ''1<'' @ [CHR 0x0A] @ ''2''"




section \<open>Properties\<close>

subsection \<open>Auxiliary facts\<close>

lemma update_last_entry: "xs \<noteq> [] \<Longrightarrow> xs[length xs - Suc 0 := y] = butlast xs @ [y]"
  by (induction xs rule: rev_induct) (simp_all add: list_update_append)

lemma catch_block_thread:
  "chatThread (catch_block cfg ts err s) =
     (if isProcessingResponse s \<and> chatThread s \<noteq> []
      then butlast (chatThread s) @ [(last (chatThread s))\<lparr>error := Some (chat_error cfg err)\<rparr>]
      else chatThread s @ [error_entry ts (chat_error cfg err)])"
  by (simp add: catch_block_def handleAPIError_def Let_def update_last_entry)

lemma catch_block_flags:
  "hasAPIError (catch_block cfg ts err s) \<and> \<not> isDisabled (catch_block cfg ts err s)
   \<and> \<not> isAwaitingResponse (catch_block cfg ts err s)
   \<and> \<not> isProcessingResponse (catch_block cfg ts err s)"
  by (simp add: catch_block_def handleAPIError_def Let_def)

lemma catch_block_last_error:
  "error (last (chatThread (catch_block cfg ts err s))) = Some (chat_error cfg err)"
  by (simp add: catch_block_thread error_entry_def)

lemma resumed_rejected:
  "handleUserChatSubmit_resumed cfg ts (Rejected err) s = (catch_block cfg ts err s, None)"
  by (simp add: handleUserChatSubmit_resumed_def)

lemma stream_rejected:
  "processApiResponse_resumed cfg ts (Rejected err) s = catch_block cfg ts err s"
  by (simp add: processApiResponse_resumed_def)

lemma new_Set_Nil: "new_Set [] = []"
  by (simp add: new_Set_def)

lemma submit_request:
  "snd (handleUserChatSubmit cfg ts s) =
     (if sanitize cfg (questionInput s) = [] then None
      else Some \<lparr>rq_question = sanitize cfg (questionInput s),
                 rq_type = interactionModel s, rq_stream = useStream s\<rparr>)"
  by (simp add: handleUserChatSubmit_def collapseAside_def processApiResponse_def
        updateChatWithMessage_def Let_def)

lemma submit_thread:
  "chatThread (fst (handleUserChatSubmit cfg ts s)) =
     (if sanitize cfg (questionInput s) = [] \<or> interactionModel s = Ask then chatThread s
      else chatThread s @ [message_entry ts (sanitize cfg (questionInput s)) [] [] [] True])"
  by (cases "interactionModel s")
     (simp_all add: handleUserChatSubmit_def collapseAside_def processApiResponse_def
        updateChatWithMessage_def Let_def)

lemma submit_empty:
  "sanitize cfg (questionInput s) = [] \<Longrightarrow> handleUserChatSubmit cfg ts s = (collapseAside s, None)"
  by (simp add: handleUserChatSubmit_def collapseAside_def Let_def)

lemma submit_useStream: "useStream (fst (handleUserChatSubmit cfg ts s)) = useStream s"
  by (simp add: handleUserChatSubmit_def collapseAside_def processApiResponse_def
        updateChatWithMessage_def Let_def)


lemma resumed_stream_start:
  "useStream s \<Longrightarrow>
     handleUserChatSubmit_resumed cfg ts (Resolved r) s =
       updateChatWithChunk ts False
         (s\<lparr>apiResponse := Some r, questionInput := [], isAwaitingResponse := False,
            isDisabled := False, isResetInput := False\<rparr>)"
  by (simp add: handleUserChatSubmit_resumed_def processApiResponse_def)

lemma resumed_stream_thread:
  "useStream s \<Longrightarrow>
     chatThread (fst (handleUserChatSubmit_resumed cfg ts (Resolved r) s)) =
       chatThread s @ [chunk_entry ts False]"
  by (simp add: resumed_stream_start updateChatWithChunk_def Let_def)

lemma resumed_full_thread:
  "\<not> useStream s \<Longrightarrow>
     chatThread (fst (handleUserChatSubmit_resumed cfg ts (Resolved (BotResponse (m # ms))) s)) =
       chatThread s @
         [message_entry ts (replacedText (processText cfg (content m)))
            (arrays1 (processText cfg (content m))) (arrays2 (processText cfg (content m)))
            (arrays0 (processText cfg (content m))) False]"
  by (simp add: handleUserChatSubmit_resumed_def processApiResponse_def
        updateChatWithMessage_def Let_def)



















lemma cancel_fields:
  "\<not> isProcessingResponse (handleUserChatCancel s)
   \<and> hasAPIError (handleUserChatCancel s) = hasAPIError s
   \<and> chatThread (handleUserChatCancel s) = chatThread s
   \<and> abortController (handleUserChatCancel s) = length (abortSignals s)
   \<and> abortSignals (handleUserChatCancel s) = (abortSignals s)[abortController s := True] @ [False]"
  by (simp add: handleUserChatCancel_def new_AbortController_def AbortController_abort_def)

lemma cancel_signals:
  "\<not> abortSignals (handleUserChatCancel s) ! abortController (handleUserChatCancel s)
   \<and> (abortController s < length (abortSignals s) \<longrightarrow>
        abortSignals (handleUserChatCancel s) ! abortController s
        \<and> abortController (handleUserChatCancel s) \<noteq> abortController s)"
  by (simp add: cancel_fields nth_append)

lemma catch_block_abort:
  "abortController (catch_block cfg ts err s) = abortController s
   \<and> abortSignals (catch_block cfg ts err s) = abortSignals s"
  by (simp add: catch_block_def handleAPIError_def Let_def)

lemma processApiResponse_abort:
  "abortController (fst (processApiResponse cfg ts msg u s)) = abortController s
   \<and> abortSignals (fst (processApiResponse cfg ts msg u s)) = abortSignals s"
  by (simp add: processApiResponse_def updateChatWithMessage_def updateChatWithChunk_def Let_def)

lemma processApiResponse_signal:
  "snd (processApiResponse cfg ts msg u s) = Some call \<Longrightarrow> pc_signal call = abortController s"
  by (auto simp: processApiResponse_def updateChatWithChunk_def Let_def split: if_splits)

lemma submit_abort:
  "abortController (fst (handleUserChatSubmit cfg ts s)) = abortController s
   \<and> abortSignals (fst (handleUserChatSubmit cfg ts s)) = abortSignals s"
  by (simp add: handleUserChatSubmit_def collapseAside_def processApiResponse_abort Let_def)

lemma resumed_abort:
  "abortController (fst (handleUserChatSubmit_resumed cfg ts outcome s)) = abortController s
   \<and> abortSignals (fst (handleUserChatSubmit_resumed cfg ts outcome s)) = abortSignals s"
  by (simp add: handleUserChatSubmit_resumed_def processApiResponse_abort catch_block_abort
        Let_def split: settled.splits api_response.splits list.splits)

lemma resumed_signal:
  "snd (handleUserChatSubmit_resumed cfg ts outcome s) = Some call \<Longrightarrow>
     pc_signal call = abortController s"
  by (auto simp: handleUserChatSubmit_resumed_def Let_def
        dest!: processApiResponse_signal
        split: settled.splits api_response.splits list.splits if_splits)

lemma stream_resumed_abort:
  "abortController (processApiResponse_resumed cfg ts outcome s) = abortController s
   \<and> abortSignals (processApiResponse_resumed cfg ts outcome s) = abortSignals s"
  by (simp add: processApiResponse_resumed_def catch_block_abort split: settled.splits)

lemma cancel_live: "controller_live (handleUserChatCancel s)"
  by (simp add: controller_live_def cancel_fields nth_append)

lemma reset_live: "controller_live (resetCurrentChat s)"
  by (simp add: resetCurrentChat_def cancel_live)

lemma step_live:
  assumes live: "controller_live s"
  shows "controller_live (step cfg ev s)"
proof (cases ev)
  case (SubmitCalled ts)
  then show ?thesis
    using live submit_abort [of cfg ts s] by (simp add: controller_live_def)
next
  case (TransportSettled ts outcome)
  then show ?thesis
    using live resumed_abort [of cfg ts outcome s] by (simp add: controller_live_def)
next
  case (StreamSettled ts outcome)
  then show ?thesis
    using live stream_resumed_abort [of cfg ts outcome s] by (simp add: controller_live_def)
next
  case CancelCalled
  then show ?thesis by (simp add: cancel_live)
next
  case ResetChat
  then show ?thesis by (simp add: reset_live)
next
  case ShowDefaultPrompts
  then show ?thesis using live by (simp add: showDefaultPrompts_def reset_live)
qed (use live in \<open>simp_all add: controller_live_def handleOnInputChange_def
       handleVoiceInput_def handleOnTeaserClick_def setQuestionInputValue_def onCancel_def
       resetInputField_def copyResponseToClipboard_def handleExpandAside_def
       collapseAside_def Let_def\<close>)

lemma run_live: "controller_live s \<Longrightarrow> controller_live (run cfg evs s)"
  unfolding run_def by (induction evs arbitrary: s) (simp_all add: step_live)

lemma initial_live: "controller_live (initial model stream prompts)"
  by (simp add: controller_live_def initial_def)

subsection \<open>Recording a failure\<close>

text \<open>
  C1. The handler puts the error on the last entry of the thread whenever a response is
  being processed, taking that entry for the one being processed. It is not, once a
  second submission has been made while the response streams: the thread then ends in
  the user entry of the second submission. When the stream fails in that state, the
  error is recorded on this user entry, and the open assistant entry of the failing
  exchange, one place before it, carries none.
\<close>

theorem error_recorded_on_user_turn:
  "isProcessingResponse submitted_twice
   \<and> chatThread submitted_twice
     = [message_entry ''10:00'' ''hi'' [] [] [] True, chunk_entry ''10:01'' False,
        message_entry ''10:02'' ''more'' [] [] [] True]
   \<and> chatThread (processApiResponse_resumed plain_cfg ''10:03''
        (Rejected (ChatResponseError (Some 503))) submitted_twice)
     = [message_entry ''10:00'' ''hi'' [] [] [] True, chunk_entry ''10:01'' False,
        (message_entry ''10:02'' ''more'' [] [] [] True)
          \<lparr>error := Some (ChatError ''api error'')\<rparr>]
   \<and> isUserMessage (message_entry ''10:02'' ''more'' [] [] [] True)
   \<and> \<not> isUserMessage (chunk_entry ''10:01'' False)
   \<and> error (chunk_entry ''10:01'' False) = None"
proof -
  have state: "isProcessingResponse submitted_twice
      \<and> chatThread submitted_twice
        = [message_entry ''10:00'' ''hi'' [] [] [] True, chunk_entry ''10:01'' False,
           message_entry ''10:02'' ''more'' [] [] [] True]"
    by (simp add: submitted_twice_def streaming_typed_def streaming_hi_def awaiting_hi_def
          typed_hi_def initial_def plain_cfg_def handleUserChatSubmit_def
          handleUserChatSubmit_resumed_def processApiResponse_def updateChatWithMessage_def
          updateChatWithChunk_def collapseAside_def handleOnInputChange_def
          strip_newlines_def Let_def)
  show ?thesis
    using state
    by (simp add: stream_rejected catch_block_thread chat_error_def plain_cfg_def
          message_entry_def chunk_entry_def)
qed

subsection \<open>Message and flags after a failure\<close>

text \<open>
  C5. When the transport call is rejected, or the stream fails while it is read, the
  last entry of the thread carries an error whose message is \<open>INVALID_REQUEST_ERROR\<close>
  if the thrown value has \<open>code\<close> 400 and \<open>API_ERROR_MESSAGE\<close> for every other thrown
  value. Afterwards \<open>isDisabled\<close>, \<open>isAwaitingResponse\<close> and \<open>isProcessingResponse\<close> are
  all cleared, so the enabled submit button is rendered again.
\<close>

theorem failure_message_and_flags:
  "error (last (chatThread (fst (handleUserChatSubmit_resumed cfg ts (Rejected err) s))))
     = Some (ChatError (if error_code err = Some 400 then INVALID_REQUEST_ERROR cfg
                        else API_ERROR_MESSAGE cfg))
   \<and> \<not> isDisabled (fst (handleUserChatSubmit_resumed cfg ts (Rejected err) s))
   \<and> \<not> isAwaitingResponse (fst (handleUserChatSubmit_resumed cfg ts (Rejected err) s))
   \<and> \<not> isProcessingResponse (fst (handleUserChatSubmit_resumed cfg ts (Rejected err) s))
   \<and> renderChatOrCancelButton (fst (handleUserChatSubmit_resumed cfg ts (Rejected err) s))
     = SubmitChatButton False
   \<and> error (last (chatThread (processApiResponse_resumed cfg ts (Rejected err) s)))
     = Some (ChatError (if error_code err = Some 400 then INVALID_REQUEST_ERROR cfg
                        else API_ERROR_MESSAGE cfg))
   \<and> \<not> isDisabled (processApiResponse_resumed cfg ts (Rejected err) s)
   \<and> \<not> isAwaitingResponse (processApiResponse_resumed cfg ts (Rejected err) s)
   \<and> \<not> isProcessingResponse (processApiResponse_resumed cfg ts (Rejected err) s)
   \<and> renderChatOrCancelButton (processApiResponse_resumed cfg ts (Rejected err) s)
     = SubmitChatButton False"
  using catch_block_flags [of cfg ts err s] catch_block_last_error [of cfg ts err s]
  by (simp add: resumed_rejected stream_rejected chat_error_def renderChatOrCancelButton_def)

theorem failure_message_and_flags_witness:
  "error (last (chatThread (fst (handleUserChatSubmit_resumed plain_cfg ''10:02''
      (Rejected (ChatResponseError (Some 400))) awaiting_hi)))) = Some (ChatError ''invalid request'')
   \<and> error (last (chatThread (fst (handleUserChatSubmit_resumed plain_cfg ''10:02''
      (Rejected (ChatResponseError None)) awaiting_hi)))) = Some (ChatError ''api error'')
   \<and> \<not> isDisabled (fst (handleUserChatSubmit_resumed plain_cfg ''10:02''
      (Rejected (ChatResponseError (Some 400))) awaiting_hi))"
  using failure_message_and_flags [of plain_cfg "''10:02''" "ChatResponseError (Some 400)" awaiting_hi]
    failure_message_and_flags [of plain_cfg "''10:02''" "ChatResponseError None" awaiting_hi]
  by (simp add: plain_cfg_def)

subsection \<open>Empty questions\<close>

text \<open>
  C2, as the code has it. The handler tests the sanitized text for being the empty
  string and nothing else: no request is made exactly when the sanitized text is empty,
  and then the handler has only collapsed the thought-process aside, so the thread and
  every other field are as before. A sanitized text made of white space is not empty
  and is submitted like any other question.
\<close>

theorem empty_question_not_submitted:
  "(snd (handleUserChatSubmit cfg ts s) = None) = (sanitize cfg (questionInput s) = [])
   \<and> (sanitize cfg (questionInput s) = [] \<longrightarrow>
        fst (handleUserChatSubmit cfg ts s) = s\<lparr>isShowingThoughtProcess := False\<rparr>
        \<and> chatThread (fst (handleUserChatSubmit cfg ts s)) = chatThread s)"
  by (simp add: submit_request submit_empty collapseAside_def)

theorem empty_question_not_submitted_witness:
  "sanitize plain_cfg (questionInput (initial Chat False True)) = []
   \<and> snd (handleUserChatSubmit plain_cfg ''10:00'' (initial Chat False True)) = None
   \<and> chatThread (fst (handleUserChatSubmit plain_cfg ''10:00'' (initial Chat False True))) = []"
  using empty_question_not_submitted [of plain_cfg "''10:00''" "initial Chat False True"]
  by (simp add: plain_cfg_def initial_def)

theorem whitespace_question_submitted:
  "sanitize plain_cfg (questionInput typed_spaces) = ''  ''
   \<and> snd (handleUserChatSubmit plain_cfg ''10:00'' typed_spaces)
     = Some \<lparr>rq_question = ''  '', rq_type = Chat, rq_stream = False\<rparr>
   \<and> chatThread typed_spaces = []
   \<and> chatThread (fst (handleUserChatSubmit plain_cfg ''10:00'' typed_spaces))
     = [message_entry ''10:00'' ''  '' [] [] [] True]"
  by (simp add: submit_request submit_thread plain_cfg_def typed_spaces_def initial_def)

subsection \<open>Echo of the question\<close>

text \<open>
  C6. For a submission whose sanitized question is not empty: in chat mode the handler
  appends a user entry holding the question before it calls the transport, so the entry
  is in the thread when the response arrives; in ask mode it appends nothing. When the
  response then arrives and is processed without error, one more entry is appended, the
  assistant's, so in ask mode the thread has gained the assistant entry only.
\<close>

theorem user_turn_only_in_chat_mode:
  "sanitize cfg (questionInput s) \<noteq> [] \<Longrightarrow>
   (let q = sanitize cfg (questionInput s);
        echo = (case interactionModel s of Chat \<Rightarrow> [message_entry ts q [] [] [] True]
                | Ask \<Rightarrow> []);
        s1 = fst (handleUserChatSubmit cfg ts s);
        p = processText cfg (content m)
    in chatThread s1 = chatThread s @ echo
       \<and> isUserMessage (message_entry ts q [] [] [] True)
       \<and> e_text (message_entry ts q [] [] [] True) = [\<lparr>t_value = q, followingSteps = []\<rparr>]
       \<and> (useStream s \<longrightarrow>
            chatThread (fst (handleUserChatSubmit_resumed cfg ts' (Resolved r) s1))
              = chatThread s @ echo @ [chunk_entry ts' False])
       \<and> (\<not> useStream s \<longrightarrow>
            chatThread (fst (handleUserChatSubmit_resumed cfg ts'
                (Resolved (BotResponse (m # ms))) s1))
              = chatThread s @ echo @
                  [message_entry ts' (replacedText p) (arrays1 p) (arrays2 p) (arrays0 p) False])
       \<and> \<not> isUserMessage (chunk_entry ts' False)
       \<and> \<not> isUserMessage (message_entry ts' (replacedText p) (arrays1 p) (arrays2 p)
              (arrays0 p) False))"
  by (cases "interactionModel s")
     (simp_all add: Let_def submit_thread submit_useStream resumed_stream_thread
        resumed_full_thread message_entry_def chunk_entry_def)

theorem user_turn_only_in_chat_mode_witness:
  "sanitize plain_cfg (questionInput asked_hi) \<noteq> []
   \<and> sanitize plain_cfg (questionInput typed_hi) \<noteq> []
   \<and> chatThread (fst (handleUserChatSubmit plain_cfg ''10:00'' asked_hi)) = []
   \<and> chatThread (fst (handleUserChatSubmit_resumed plain_cfg ''10:01''
        (Resolved (BotResponse [answer])) (fst (handleUserChatSubmit plain_cfg ''10:00'' asked_hi))))
     = [message_entry ''10:01'' (content answer) [] [] [] False]
   \<and> chatThread (fst (handleUserChatSubmit plain_cfg ''10:00'' typed_hi))
     = [message_entry ''10:00'' ''hi'' [] [] [] True]
   \<and> chatThread (fst (handleUserChatSubmit_resumed plain_cfg ''10:01''
        (Resolved (StreamResponse [])) (fst (handleUserChatSubmit plain_cfg ''10:00'' typed_hi))))
     = [message_entry ''10:00'' ''hi'' [] [] [] True, chunk_entry ''10:01'' False]"
  using user_turn_only_in_chat_mode [of plain_cfg asked_hi "''10:00''" answer "''10:01''"
      "StreamResponse []" "[]"]
    user_turn_only_in_chat_mode [of plain_cfg typed_hi "''10:00''" answer "''10:01''"
      "StreamResponse []" "[]"]
  by (simp add: Let_def plain_cfg_def asked_hi_def typed_hi_def initial_def no_citations_def)

subsection \<open>Sanitized questions\<close>

text \<open>
  C8. The question of the request, and the text of the user entry echoed in chat mode,
  are the sanitizer's output on the value of the input field; the handler puts no other
  user text into the request or the thread. Text that arrives by voice input or by a
  click on a teaser is sanitized on its way into the input field, which stores it
  without its line breaks, and is sanitized again when it is submitted. Typed text sits
  in the field as the field stores it until the handler sanitizes it.
\<close>

theorem submitted_question_is_sanitized:
  "snd (handleUserChatSubmit cfg ts s) =
     (if sanitize cfg (questionInput s) = [] then None
      else Some \<lparr>rq_question = sanitize cfg (questionInput s),
                 rq_type = interactionModel s, rq_stream = useStream s\<rparr>)
   \<and> chatThread (fst (handleUserChatSubmit cfg ts s)) =
       (if sanitize cfg (questionInput s) = [] \<or> interactionModel s = Ask then chatThread s
        else chatThread s @
          [\<lparr>e_text = [\<lparr>t_value = sanitize cfg (questionInput s), followingSteps = []\<rparr>],
            followupQuestions = Some [], citations = Some [], timestamp = ts,
            isUserMessage = True, error = None\<rparr>])
   \<and> questionInput (handleVoiceInput cfg v s)
       = strip_newlines (sanitize cfg (case v of None \<Rightarrow> [] | Some x \<Rightarrow> x))
   \<and> currentQuestion (handleVoiceInput cfg v s) = questionInput (handleVoiceInput cfg v s)
   \<and> questionInput (handleOnTeaserClick cfg v s)
       = strip_newlines (sanitize cfg (case v of None \<Rightarrow> [] | Some x \<Rightarrow> x))
   \<and> currentQuestion (handleOnTeaserClick cfg v s)
       = questionInput (handleOnTeaserClick cfg v s)
   \<and> snd (handleUserChatSubmit cfg ts (handleVoiceInput cfg (Some raw) s)) =
       (if sanitize cfg (strip_newlines (sanitize cfg raw)) = [] then None
        else Some \<lparr>rq_question = sanitize cfg (strip_newlines (sanitize cfg raw)),
                   rq_type = interactionModel s, rq_stream = useStream s\<rparr>)
   \<and> snd (handleUserChatSubmit cfg ts (handleOnTeaserClick cfg (Some raw) s)) =
       (if sanitize cfg (strip_newlines (sanitize cfg raw)) = [] then None
        else Some \<lparr>rq_question = sanitize cfg (strip_newlines (sanitize cfg raw)),
                   rq_type = interactionModel s, rq_stream = useStream s\<rparr>)
   \<and> questionInput (step cfg (InputTyped raw) s) = strip_newlines raw
   \<and> snd (handleUserChatSubmit cfg ts (step cfg (InputTyped raw) s)) =
       (if sanitize cfg (strip_newlines raw) = [] then None
        else Some \<lparr>rq_question = sanitize cfg (strip_newlines raw),
                   rq_type = interactionModel s, rq_stream = useStream s\<rparr>)"
  by (simp add: submit_request submit_thread message_entry_def new_Set_Nil
        handleVoiceInput_def handleOnTeaserClick_def setQuestionInputValue_def
        handleOnInputChange_def Let_def)

theorem submitted_question_is_sanitized_witness:
  "questionInput (step escaping_cfg (InputTyped ''1<2'') typed_hi) = ''1<2''
   \<and> snd (handleUserChatSubmit escaping_cfg ''10:00'' (step escaping_cfg (InputTyped ''1<2'') typed_hi))
     = Some \<lparr>rq_question = ''1&lt;2'', rq_type = Chat, rq_stream = True\<rparr>
   \<and> map e_text (chatThread (fst (handleUserChatSubmit escaping_cfg ''10:00''
        (typed_hi\<lparr>questionInput := ''1<2''\<rparr>))))
     = [[\<lparr>t_value = ''1&lt;2'', followingSteps = []\<rparr>]]
   \<and> sanitize escaping_cfg dictated = ''1&lt;'' @ [CHR 0x0A] @ ''2''
   \<and> questionInput (handleVoiceInput escaping_cfg (Some dictated) typed_hi) = ''1&lt;2''
   \<and> snd (handleUserChatSubmit escaping_cfg ''10:00''
        (handleVoiceInput escaping_cfg (Some dictated) typed_hi))
     = Some \<lparr>rq_question = ''1&lt;2'', rq_type = Chat, rq_stream = True\<rparr>"
proof -
  have typed: "strip_newlines ''1<2'' = ''1<2''"
    by (simp add: strip_newlines_def)
  have clean: "sanitize escaping_cfg ''1<2'' = ''1&lt;2''
      \<and> sanitize escaping_cfg dictated = ''1&lt;'' @ [CHR 0x0A] @ ''2''
      \<and> sanitize escaping_cfg ''1&lt;2'' = ''1&lt;2''"
    by (simp add: escaping_cfg_def escape_lt_def dictated_def)
  have stored: "strip_newlines (''1&lt;'' @ [CHR 0x0A] @ ''2'') = ''1&lt;2''"
    by (simp add: strip_newlines_def)
  have fields: "interactionModel typed_hi = Chat \<and> useStream typed_hi
      \<and> chatThread typed_hi = []"
    by (simp add: typed_hi_def initial_def)
  have at_typing: "questionInput (step escaping_cfg (InputTyped ''1<2'') typed_hi) = ''1<2''
      \<and> snd (handleUserChatSubmit escaping_cfg ''10:00''
            (step escaping_cfg (InputTyped ''1<2'') typed_hi))
        = Some \<lparr>rq_question = ''1&lt;2'', rq_type = Chat, rq_stream = True\<rparr>"
    using submitted_question_is_sanitized [where cfg = escaping_cfg and ts = "''10:00''"
        and s = typed_hi and v = None and raw = "''1<2''"]
      typed clean fields
    by simp
  have echoed: "map e_text (chatThread (fst (handleUserChatSubmit escaping_cfg ''10:00''
        (typed_hi\<lparr>questionInput := ''1<2''\<rparr>))))
      = [[\<lparr>t_value = ''1&lt;2'', followingSteps = []\<rparr>]]"
    using submitted_question_is_sanitized [where cfg = escaping_cfg and ts = "''10:00''"
        and s = "typed_hi\<lparr>questionInput := ''1<2''\<rparr>" and v = None and raw = "[]"]
      clean fields
    by simp
  have at_dictation:
    "questionInput (handleVoiceInput escaping_cfg (Some dictated) typed_hi) = ''1&lt;2''
      \<and> snd (handleUserChatSubmit escaping_cfg ''10:00''
            (handleVoiceInput escaping_cfg (Some dictated) typed_hi))
        = Some \<lparr>rq_question = ''1&lt;2'', rq_type = Chat, rq_stream = True\<rparr>"
    using submitted_question_is_sanitized [where cfg = escaping_cfg and ts = "''10:00''"
        and s = typed_hi and v = "Some dictated" and raw = dictated]
      clean stored fields
    by simp
  show ?thesis
    using at_typing echoed at_dictation clean by simp
qed

subsection \<open>Citations of an appended turn\<close>



subsection \<open>Submitting while an exchange is in flight\<close>




subsection \<open>Cancelling\<close>

text \<open>
  C7. The cancel handler clears \<open>isProcessingResponse\<close> and aborts the signal of the
  current controller, which is the signal a stream started in this state was given; it
  leaves \<open>hasAPIError\<close> and the whole thread as they were, so no entry gets an error.
  The same holds when the parser then acknowledges the cancellation through \<open>onCancel\<close>
  and when its promise resolves.
\<close>

theorem cancel_is_not_a_failure:
  "abortController s < length (abortSignals s) \<Longrightarrow>
   (let s' = handleUserChatCancel s
    in \<not> isProcessingResponse s'
       \<and> abortSignals s' ! abortController s
       \<and> hasAPIError s' = hasAPIError s
       \<and> chatThread s' = chatThread s
       \<and> \<not> isProcessingResponse (onCancel s')
       \<and> hasAPIError (onCancel s') = hasAPIError s
       \<and> chatThread (onCancel s') = chatThread s
       \<and> \<not> isProcessingResponse (processApiResponse_resumed cfg ts (Resolved res) s')
       \<and> hasAPIError (processApiResponse_resumed cfg ts (Resolved res) s') = hasAPIError s
       \<and> chatThread (processApiResponse_resumed cfg ts (Resolved res) s') = chatThread s
       \<and> (useStream s \<longrightarrow>
            map_option pc_signal (snd (handleUserChatSubmit_resumed cfg ts' (Resolved r) s))
              = Some (abortController s)
            \<and> abortSignals
                (handleUserChatCancel (fst (handleUserChatSubmit_resumed cfg ts' (Resolved r) s)))
                ! abortController s))"
proof -
  assume alloc: "abortController s < length (abortSignals s)"
  have started: "useStream s \<Longrightarrow>
      map_option pc_signal (snd (handleUserChatSubmit_resumed cfg ts' (Resolved r) s))
        = Some (abortController s)"
    by (simp add: resumed_stream_start updateChatWithChunk_def Let_def)
  have aborted: "abortSignals
      (handleUserChatCancel (fst (handleUserChatSubmit_resumed cfg ts' (Resolved r) s)))
      ! abortController s"
    using alloc resumed_abort [of cfg ts' "Resolved r" s]
    by (simp add: cancel_fields nth_append)
  show ?thesis
    using alloc started aborted cancel_fields [of s]
    by (simp add: Let_def onCancel_def processApiResponse_resumed_def nth_append)
qed

theorem cancel_is_not_a_failure_witness:
  "abortController streaming_hi < length (abortSignals streaming_hi)
   \<and> isProcessingResponse streaming_hi
   \<and> \<not> isProcessingResponse (handleUserChatCancel streaming_hi)
   \<and> abortSignals (handleUserChatCancel streaming_hi) ! abortController streaming_hi
   \<and> \<not> hasAPIError (handleUserChatCancel streaming_hi)
   \<and> map error (chatThread (handleUserChatCancel streaming_hi)) = [None, None]
   \<and> abortController awaiting_hi < length (abortSignals awaiting_hi)
   \<and> useStream awaiting_hi
   \<and> map_option pc_signal (snd (handleUserChatSubmit_resumed plain_cfg ''10:01''
        (Resolved (StreamResponse [])) awaiting_hi)) = Some 0
   \<and> abortSignals (handleUserChatCancel streaming_hi) ! 0"
proof -
  have waiting: "abortController awaiting_hi = 0 \<and> abortSignals awaiting_hi = [False]
      \<and> useStream awaiting_hi"
    by (simp add: awaiting_hi_def submit_abort submit_useStream typed_hi_def initial_def)
  have fields: "abortController streaming_hi = 0 \<and> abortSignals streaming_hi = [False]
      \<and> isProcessingResponse streaming_hi \<and> \<not> hasAPIError streaming_hi
      \<and> map error (chatThread streaming_hi) = [None, None]"
    by (simp add: streaming_hi_def awaiting_hi_def typed_hi_def initial_def plain_cfg_def
          handleUserChatSubmit_def handleUserChatSubmit_resumed_def processApiResponse_def
          updateChatWithMessage_def updateChatWithChunk_def collapseAside_def
          message_entry_def chunk_entry_def Let_def)
  have alloc: "abortController streaming_hi < length (abortSignals streaming_hi)"
    using fields by simp
  have alloc': "abortController awaiting_hi < length (abortSignals awaiting_hi)"
    using waiting by simp
  have started: "map_option pc_signal (snd (handleUserChatSubmit_resumed plain_cfg ''10:01''
        (Resolved (StreamResponse [])) awaiting_hi)) = Some 0
      \<and> abortSignals (handleUserChatCancel streaming_hi) ! 0"
    using cancel_is_not_a_failure [OF alloc', of plain_cfg "''10:02''"
        "\<lparr>thoughts = None, data_points = []\<rparr>" "''10:01''" "StreamResponse []"]
      waiting
    by (simp add: Let_def streaming_hi_def)
  show ?thesis
    using cancel_is_not_a_failure [OF alloc, of plain_cfg "''10:02''"
        "\<lparr>thoughts = None, data_points = []\<rparr>" "''10:01''" "StreamResponse []"]
      fields alloc alloc' waiting started
    by (simp add: Let_def)
qed

subsection \<open>Resetting the chat\<close>

text \<open>
  C9. Resetting the chat empties the thread, clears \<open>isDisabled\<close> and
  \<open>isResponseCopied\<close>, sets \<open>isDefaultPromptsEnabled\<close>, and then runs the cancel
  handler itself: \<open>isProcessingResponse\<close> is cleared, the signal of the controller that
  was current is aborted, and a new controller that is not aborted takes its place.
\<close>

theorem reset_clears_and_cancels:
  "resetCurrentChat s =
     handleUserChatCancel
       (s\<lparr>isChatStarted := False, chatThread := [], isDisabled := False,
          isDefaultPromptsEnabled := True, isResponseCopied := False,
          isShowingThoughtProcess := False\<rparr>)
   \<and> chatThread (resetCurrentChat s) = []
   \<and> \<not> isDisabled (resetCurrentChat s)
   \<and> isDefaultPromptsEnabled (resetCurrentChat s)
   \<and> \<not> isResponseCopied (resetCurrentChat s)
   \<and> \<not> isChatStarted (resetCurrentChat s)
   \<and> \<not> isProcessingResponse (resetCurrentChat s)
   \<and> abortSignals (resetCurrentChat s) = abortSignals (handleUserChatCancel s)
   \<and> abortController (resetCurrentChat s) = abortController (handleUserChatCancel s)
   \<and> (abortController s < length (abortSignals s) \<longrightarrow>
        abortSignals (resetCurrentChat s) ! abortController s
        \<and> abortController (resetCurrentChat s) \<noteq> abortController s
        \<and> \<not> abortSignals (resetCurrentChat s) ! abortController (resetCurrentChat s))"
  by (simp add: resetCurrentChat_def collapseAside_def handleUserChatCancel_def
        new_AbortController_def AbortController_abort_def nth_append)

theorem reset_clears_and_cancels_witness:
  "abortController streaming_hi < length (abortSignals streaming_hi)
   \<and> chatThread (resetCurrentChat streaming_hi) = []
   \<and> abortSignals (resetCurrentChat streaming_hi) = [True, False]
   \<and> abortController (resetCurrentChat streaming_hi) = 1"
proof -
  have fields: "abortController streaming_hi = 0 \<and> abortSignals streaming_hi = [False]"
    by (simp add: streaming_hi_def awaiting_hi_def resumed_abort submit_abort typed_hi_def
          initial_def)
  show ?thesis
    using reset_clears_and_cancels [of streaming_hi] fields
    by (simp add: cancel_fields)
qed

subsection \<open>A new controller after every cancellation\<close>

text \<open>
  C10. In every state the component reaches from its initial state, by any sequence of
  user actions and settled promises, the current controller's signal is not aborted.
  Cancelling in such a state aborts the current controller and installs one at an
  address that was not allocated before, not aborted. Hence the signal handed to the
  stream parser whenever a streamed response starts is the current controller's and is
  not aborted at that moment.
\<close>

theorem controller_fresh_after_cancel:
  "(let s = run cfg evs (initial model stream prompts);
        s' = handleUserChatCancel s
    in abortController s' = length (abortSignals s)
       \<and> abortController s' \<noteq> abortController s
       \<and> \<not> abortSignals s' ! abortController s'
       \<and> abortSignals s' ! abortController s)
   \<and> \<not> abortSignals (run cfg evs (initial model stream prompts))
         ! abortController (run cfg evs (initial model stream prompts))
   \<and> (case snd (handleUserChatSubmit_resumed cfg ts outcome
              (run cfg evs (initial model stream prompts))) of
        None \<Rightarrow> True
      | Some call \<Rightarrow>
          pc_signal call = abortController (run cfg evs (initial model stream prompts))
          \<and> \<not> abortSignals (fst (handleUserChatSubmit_resumed cfg ts outcome
                  (run cfg evs (initial model stream prompts)))) ! pc_signal call)"
proof -
  define s where "s = run cfg evs (initial model stream prompts)"
  have live: "controller_live s"
    unfolding s_def by (rule run_live [OF initial_live])
  then have alloc: "abortController s < length (abortSignals s)"
    and fresh: "\<not> abortSignals s ! abortController s"
    by (simp_all add: controller_live_def)
  have cancel: "abortController (handleUserChatCancel s) = length (abortSignals s)
      \<and> abortController (handleUserChatCancel s) \<noteq> abortController s
      \<and> \<not> abortSignals (handleUserChatCancel s) ! abortController (handleUserChatCancel s)
      \<and> abortSignals (handleUserChatCancel s) ! abortController s"
    using alloc cancel_signals [of s] by (simp add: cancel_fields)
  have start: "(case snd (handleUserChatSubmit_resumed cfg ts outcome s) of
        None \<Rightarrow> True
      | Some call \<Rightarrow>
          pc_signal call = abortController s
          \<and> \<not> abortSignals (fst (handleUserChatSubmit_resumed cfg ts outcome s)) ! pc_signal call)"
    using fresh resumed_abort [of cfg ts outcome s] resumed_signal [of cfg ts outcome s]
    by (simp split: option.splits)
  show ?thesis
    using cancel fresh start unfolding s_def Let_def by blast
qed

theorem controller_fresh_after_cancel_witness:
  "abortSignals (run plain_cfg cancelled_once (initial Chat True False)) = [True, False]
   \<and> map_option pc_signal (snd (handleUserChatSubmit_resumed plain_cfg ''10:04''
        (Resolved (StreamResponse [])) (run plain_cfg cancelled_once (initial Chat True False))))
     = Some 1"
proof -
  have fields: "abortSignals (run plain_cfg cancelled_once (initial Chat True False))
        = [True, False]
      \<and> abortController (run plain_cfg cancelled_once (initial Chat True False)) = 1
      \<and> useStream (run plain_cfg cancelled_once (initial Chat True False))"
    by (simp add: run_def cancelled_once_def initial_def plain_cfg_def handleOnInputChange_def
          strip_newlines_def
          handleUserChatSubmit_def handleUserChatSubmit_resumed_def processApiResponse_def
          processApiResponse_resumed_def updateChatWithMessage_def updateChatWithChunk_def
          collapseAside_def handleUserChatCancel_def new_AbortController_def
          AbortController_abort_def Let_def)
  have call: "snd (handleUserChatSubmit_resumed plain_cfg ''10:04''
        (Resolved (StreamResponse [])) (run plain_cfg cancelled_once (initial Chat True False)))
      \<noteq> None"
    using fields by (simp add: resumed_stream_start updateChatWithChunk_def Let_def)
  show ?thesis
    using controller_fresh_after_cancel [of plain_cfg cancelled_once Chat True False
        "''10:04''" "Resolved (StreamResponse [])"] fields call
    by (auto split: option.splits)
qed

end
